theory Spec2Isabelle
  imports Main "HOL-Library.Sublist"
begin

section \<open>Python values and exceptions\<close>

text \<open>
  The backend handles decoded JSON throughout: request bodies, the replies of the Rasa
  server and WebSocket frames. A decoded JSON document is a value of \<open>json\<close>; an object
  is an association list read with \<open>map_of\<close>, as \<open>dict.get\<close> reads a Python dict. The
  code never computes with numbers, it only tests their truth value and their type, so a
  number is an integer here.
\<close>

datatype json =
    JNull
  | JBool bool
  | JNum int
  | JStr string
  | JArr "json list"
  | JObj "(string \<times> json) list"

text \<open>
  Exceptions derived from Python's \<open>Exception\<close>. Cancellation of the running
  task (\<open>asyncio.CancelledError\<close>, which is not an \<open>Exception\<close>) is not modelled.
\<close>

datatype py_exn =
    ConnectError
  | TimeoutException
  | JSONDecodeError
  | TypeError
  | KeyError
  | IndexError
  | AttributeError
  | WebSocketDisconnect
  | RuntimeError

text \<open>Truth value of a decoded JSON document (\<open>if x:\<close>, \<open>not x\<close>).\<close>

fun truthy :: "json \<Rightarrow> bool" where
  "truthy JNull = False"
| "truthy (JBool b) = b"
| "truthy (JNum n) = (n \<noteq> 0)"
| "truthy (JStr s) = (s \<noteq> [])"
| "truthy (JArr xs) = (xs \<noteq> [])"
| "truthy (JObj kvs) = (kvs \<noteq> [])"

text \<open>\<open>len(x)\<close>: defined on strings, lists and dicts, \<open>TypeError\<close> otherwise.\<close>

fun py_len :: "json \<Rightarrow> py_exn + nat" where
  "py_len (JStr s) = Inr (length s)"
| "py_len (JArr xs) = Inr (length xs)"
| "py_len (JObj kvs) = Inr (length kvs)"
| "py_len _ = Inl TypeError"

text \<open>
  \<open>x[0]\<close>: the first element of a list, the first character of a string; a dict decoded
  from JSON has string keys only, so the key \<open>0\<close> is missing.
\<close>

fun py_item0 :: "json \<Rightarrow> py_exn + json" where
  "py_item0 (JArr []) = Inl IndexError"
| "py_item0 (JArr (x # xs)) = Inr x"
| "py_item0 (JStr []) = Inl IndexError"
| "py_item0 (JStr (c # cs)) = Inr (JStr [c])"
| "py_item0 (JObj kvs) = Inl KeyError"
| "py_item0 _ = Inl TypeError"

text \<open>\<open>x.get(key, default)\<close>: only a dict has the method.\<close>

fun py_get :: "json \<Rightarrow> string \<Rightarrow> json \<Rightarrow> py_exn + json" where
  "py_get (JObj kvs) k d = Inr (case map_of kvs k of None \<Rightarrow> d | Some v \<Rightarrow> v)"
| "py_get _ k d = Inl AttributeError"

text \<open>
  \<open>x[:100]\<close>: strings and lists can be sliced; a dict raises, as do the scalars. (For a
  dict the class raised depends on the interpreter, \<open>TypeError\<close> up to Python 3.11; every
  caller catches it under \<open>Exception\<close>.)
\<close>

fun py_slice100 :: "json \<Rightarrow> py_exn + json" where
  "py_slice100 (JStr s) = Inr (JStr (take 100 s))"
| "py_slice100 (JArr xs) = Inr (JArr (take 100 xs))"
| "py_slice100 _ = Inl TypeError"

section \<open>The Rasa client\<close>

record RasaClient =
  rasa_url :: string
  max_retries :: nat
  retry_delay :: nat
  fallback_urls :: "string list"

definition RasaClient_init :: RasaClient where
  "RasaClient_init =
     \<lparr> rasa_url = ''http://localhost:5005'',
       max_retries = 5,
       retry_delay = 2,
       fallback_urls =
         [''http://localhost:5005'', ''http://127.0.0.1:5005'', ''http://rasa:5005''] \<rparr>"

definition rasa_client :: RasaClient where
  "rasa_client = RasaClient_init"

text \<open>
  What one \<open>client.post\<close> does: it raises, or it delivers a response with a status code
  and a body; the body is \<open>None\<close> when \<open>response.json()\<close> cannot decode it.
\<close>

datatype http_outcome =
    Raises py_exn
  | Response nat "json option"

text \<open>
  The network is an oracle: the outcome of the \<open>k\<close>-th POST the process issues, given
  the address and the payload. The same address may answer differently at different times.
\<close>

type_synonym network = "nat \<Rightarrow> string \<Rightarrow> json \<Rightarrow> http_outcome"

type_synonym request = "string \<times> json"

definition create_fallback_response :: "string \<Rightarrow> json" where
  "create_fallback_response reason =
     JObj [(''text'', JStr (''I'' @ [CHR 0x27] @ ''m having trouble processing your message right now. How can I help you with your health concerns?'')),
           (''buttons'', JArr
              [JObj [(''title'', JStr ''Report Symptoms''), (''payload'', JStr ''/report_symptoms'')],
               JObj [(''title'', JStr ''Book Appointment''), (''payload'', JStr ''/book_appointment'')],
               JObj [(''title'', JStr ''Get Advice''), (''payload'', JStr ''/get_health_advice'')]])]"

text \<open>
  The body of the \<open>try\<close> block of \<open>send_message\<close>, after the POST: it returns a value
  from \<open>send_message\<close>, or falls out of the block (a status other than 200), or raises.
\<close>

datatype attempt = Returned json | Fell_through

definition try_body :: "http_outcome \<Rightarrow> py_exn + attempt" where
  "try_body outcome =
     (case outcome of
        Raises e \<Rightarrow> Inl e
      | Response status_code body \<Rightarrow>
          if status_code = 200 then
            (case body of
               None \<Rightarrow> Inl JSONDecodeError
             | Some rasa_responses \<Rightarrow>
                 (case py_len rasa_responses of
                    Inl e \<Rightarrow> Inl e
                  | Inr n \<Rightarrow>
                      if truthy rasa_responses then
                        (case py_item0 rasa_responses of
                           Inl e \<Rightarrow> Inl e
                         | Inr r \<Rightarrow> Inr (Returned r))
                      else Inr (Returned (create_fallback_response ''Rasa returned no responses''))))
          else Inr Fell_through)"

text \<open>
  The three \<open>except\<close> clauses of the loop body, in the source's order; each one logs and
  continues with the next address.
\<close>

datatype handler = Continue | Propagate

fun except_clauses :: "py_exn \<Rightarrow> handler" where
  "except_clauses ConnectError = Continue"
| "except_clauses TimeoutException = Continue"
| "except_clauses e = Continue"

text \<open>The address a POST goes to: \<open>f"{url}/webhooks/rest/webhook"\<close>.\<close>

definition webhook :: "string \<Rightarrow> string" where
  "webhook url = url @ ''/webhooks/rest/webhook''"

text \<open>
  The \<open>for url in urls_to_try\<close> loop. \<open>t\<close> counts the POSTs issued before this one; the
  second component of the result lists the requests issued, in the order they were made.
\<close>

fun try_urls :: "network \<Rightarrow> nat \<Rightarrow> string list \<Rightarrow> json \<Rightarrow> (py_exn + json) \<times> request list" where
  "try_urls net t [] payload = (Inr (create_fallback_response ''Connection failed''), [])"
| "try_urls net t (url # urls) payload =
     (let target = webhook url in
      case try_body (net t target payload) of
        Inr (Returned r) \<Rightarrow> (Inr r, [(target, payload)])
      | Inr Fell_through \<Rightarrow>
          (let (res, reqs) = try_urls net (Suc t) urls payload in (res, (target, payload) # reqs))
      | Inl e \<Rightarrow>
          (case except_clauses e of
             Continue \<Rightarrow>
               (let (res, reqs) = try_urls net (Suc t) urls payload in (res, (target, payload) # reqs))
           | Propagate \<Rightarrow> (Inl e, [(target, payload)])))"

definition urls_to_try :: "RasaClient \<Rightarrow> string list" where
  "urls_to_try self = [rasa_url self] @ fallback_urls self"

definition send_message :: "RasaClient \<Rightarrow> network \<Rightarrow> nat \<Rightarrow> json \<Rightarrow> json \<Rightarrow> (py_exn + json) \<times> request list" where
  "send_message self net t message sender =
     try_urls net t (urls_to_try self) (JObj [(''sender'', sender), (''message'', message)])"

section \<open>The REST chat endpoint\<close>

text \<open>
  An HTTP answer: the status code and the JSON content. A handler that returns a plain
  dict answers with status 200.
\<close>

type_synonym http_answer = "nat \<times> json"

text \<open>
  The \<open>try\<close> block of \<open>chat_endpoint\<close>. \<open>request\<close> is the decoded body, a dict;
  \<open>now\<close> is the reading of \<open>datetime.utcnow().isoformat()\<close>.
\<close>

definition chat_try :: "RasaClient \<Rightarrow> network \<Rightarrow> nat \<Rightarrow> string \<Rightarrow> (string \<times> json) list
    \<Rightarrow> (py_exn + http_answer) \<times> request list" where
  "chat_try self net t now request =
     (let message = (case map_of request ''message'' of None \<Rightarrow> JStr [] | Some v \<Rightarrow> v);
          session_id = (case map_of request ''session_id'' of None \<Rightarrow> JStr ''default_session'' | Some v \<Rightarrow> v)
      in if \<not> truthy message then
           (Inr (400, JObj [(''error'', JStr ''Message is required'')]), [])
         else
           (case send_message self net t message session_id of
              (Inl e, reqs) \<Rightarrow> (Inl e, reqs)
            | (Inr rasa_response, reqs) \<Rightarrow>
                (case py_get rasa_response ''text'' (JStr []) of
                   Inl e \<Rightarrow> (Inl e, reqs)
                 | Inr text \<Rightarrow>
                     (case py_get rasa_response ''buttons'' (JArr []) of
                        Inl e \<Rightarrow> (Inl e, reqs)
                      | Inr buttons \<Rightarrow>
                          (case py_slice100 text of
                             Inl e \<Rightarrow> (Inl e, reqs)
                           | Inr logged \<Rightarrow>
                               (Inr (200, JObj [(''text'', text),
                                                (''buttons'', buttons),
                                                (''session_id'', session_id),
                                                (''timestamp'', JStr now)]), reqs))))))"

text \<open>
  The handler with its \<open>except Exception\<close> clause. The detail of a 500 answer is
  \<open>str(e)\<close>. The text Python gives an exception depends on the operation that raised
  it, on its operand and on the interpreter; it is the parameter \<open>str_e\<close>, so that what
  is proved holds for every rendering.
\<close>

definition chat_endpoint :: "(py_exn \<Rightarrow> string) \<Rightarrow> RasaClient \<Rightarrow> network \<Rightarrow> nat \<Rightarrow> string
    \<Rightarrow> (string \<times> json) list \<Rightarrow> http_answer \<times> request list" where
  "chat_endpoint str_e self net t now request =
     (case chat_try self net t now request of
        (Inr answer, reqs) \<Rightarrow> (answer, reqs)
      | (Inl e, reqs) \<Rightarrow>
          ((500, JObj [(''error'', JStr ''Internal server error''), (''detail'', JStr (str_e e))]), reqs))"

section \<open>The connection manager and the WebSocket endpoint\<close>

text \<open>A WebSocket object is known by its identity.\<close>

type_synonym websocket = nat

text \<open>
  The environment of a connection: the network, whether the \<open>k\<close>-th \<open>send_text\<close> of
  the process raises, whether \<open>accept\<close> raises, and the clock.
\<close>

record env =
  net :: network
  send_text_raises :: "nat \<Rightarrow> websocket \<Rightarrow> py_exn option"
  accept_raises :: "websocket \<Rightarrow> py_exn option"
  utcnow :: "nat \<Rightarrow> string"

text \<open>
  The state the endpoint changes: the manager's list, the frames the transports took
  (oldest first), and counters of the writes, POSTs and clock readings made so far.
\<close>

record world =
  active_connections :: "websocket list"
  sent :: "(websocket \<times> json) list"
  writes :: nat
  posts :: nat
  clock_reads :: nat
  http_log :: "request list"

definition connect :: "env \<Rightarrow> websocket \<Rightarrow> world \<Rightarrow> (py_exn + unit) \<times> world" where
  "connect e ws w =
     (case accept_raises e ws of
        Some x \<Rightarrow> (Inl x, w)
      | None \<Rightarrow> (Inr (), w\<lparr>active_connections := active_connections w @ [ws]\<rparr>))"

definition disconnect :: "websocket \<Rightarrow> world \<Rightarrow> world" where
  "disconnect ws w =
     (if ws \<in> set (active_connections w)
      then w\<lparr>active_connections := remove1 ws (active_connections w)\<rparr>
      else w)"

text \<open>
  \<open>send_personal_message\<close> has no \<open>return\<close> statement: on both paths the caller gets
  \<open>None\<close>, here the unit value.
\<close>

definition send_personal_message :: "env \<Rightarrow> json \<Rightarrow> websocket \<Rightarrow> world \<Rightarrow> (py_exn + unit) \<times> world" where
  "send_personal_message e message ws w =
     (let w' = w\<lparr>writes := Suc (writes w)\<rparr> in
      case send_text_raises e (writes w) ws of
        None \<Rightarrow> (Inr (), w'\<lparr>sent := sent w' @ [(ws, message)]\<rparr>)
      | Some x \<Rightarrow> (Inr (), disconnect ws w'))"

text \<open>Reading the clock.\<close>

definition read_clock :: "env \<Rightarrow> world \<Rightarrow> string \<times> world" where
  "read_clock e w = (utcnow e (clock_reads w), w\<lparr>clock_reads := Suc (clock_reads w)\<rparr>)"

text \<open>
  What \<open>receive_text\<close> followed by \<open>json.loads\<close> yields for one inbound frame:
  \<open>receive_text\<close> raises (\<open>WebSocketDisconnect\<close> when the peer closed, \<open>KeyError\<close> on a
  binary frame), or it delivers a text whose decoding is \<open>None\<close> when \<open>json.loads\<close>
  raises \<open>JSONDecodeError\<close>.
\<close>

datatype inbound =
    Receive_raises py_exn
  | Text_frame "json option"

text \<open>The branch of the loop body for a frame of type \<open>message\<close>.\<close>

definition on_message :: "RasaClient \<Rightarrow> env \<Rightarrow> string \<Rightarrow> websocket \<Rightarrow> json \<Rightarrow> world
    \<Rightarrow> (py_exn + unit) \<times> world" where
  "on_message self e session_id ws message_data w =
     (case py_get message_data ''message'' (JStr []) of
        Inl x \<Rightarrow> (Inl x, w)
      | Inr user_message \<Rightarrow>
          (let (t1, w1) = read_clock e w;
               user_msg_response = JObj [(''type'', JStr ''message''), (''message'', user_message),
                                         (''sender'', JStr ''user''), (''timestamp'', JStr t1)];
               (r2, w2) = send_personal_message e user_msg_response ws w1;
               (res, reqs) = send_message self (net e) (posts w2) user_message (JStr session_id);
               w3 = w2\<lparr>posts := posts w2 + length reqs, http_log := http_log w2 @ reqs\<rparr>
           in case res of
                Inl x \<Rightarrow> (Inl x, w3)
              | Inr rasa_response \<Rightarrow>
                  (case py_get rasa_response ''text'' (JStr []) of
                     Inl x \<Rightarrow> (Inl x, w3)
                   | Inr text \<Rightarrow>
                       (case py_slice100 text of
                          Inl x \<Rightarrow> (Inl x, w3)
                        | Inr logged \<Rightarrow>
                            (case py_get rasa_response ''buttons'' (JArr []) of
                               Inl x \<Rightarrow> (Inl x, w3)
                             | Inr buttons \<Rightarrow>
                                 (let (t4, w4) = read_clock e w3;
                                      bot_response = JObj [(''type'', JStr ''message''), (''message'', text),
                                                           (''sender'', JStr ''bot''), (''buttons'', buttons),
                                                           (''timestamp'', JStr t4)]
                                  in send_personal_message e bot_response ws w4))))))"

text \<open>The branch for a frame of type \<open>typing\<close>.\<close>

definition on_typing :: "env \<Rightarrow> websocket \<Rightarrow> json \<Rightarrow> world \<Rightarrow> (py_exn + unit) \<times> world" where
  "on_typing e ws message_data w =
     (case py_get message_data ''isTyping'' (JBool False) of
        Inl x \<Rightarrow> (Inl x, w)
      | Inr is_typing \<Rightarrow>
          (let (t1, w1) = read_clock e w;
               typing_response = JObj [(''type'', JStr ''typing''), (''isTyping'', is_typing),
                                       (''timestamp'', JStr t1)]
           in send_personal_message e typing_response ws w1))"

text \<open>One pass through the body of \<open>while True\<close>.\<close>

definition loop_body :: "RasaClient \<Rightarrow> env \<Rightarrow> string \<Rightarrow> websocket \<Rightarrow> inbound \<Rightarrow> world
    \<Rightarrow> (py_exn + unit) \<times> world" where
  "loop_body self e session_id ws frame w =
     (case frame of
        Receive_raises x \<Rightarrow> (Inl x, w)
      | Text_frame None \<Rightarrow> (Inl JSONDecodeError, w)
      | Text_frame (Some message_data) \<Rightarrow>
          (case py_get message_data ''type'' JNull of
             Inl x \<Rightarrow> (Inl x, w)
           | Inr ty \<Rightarrow>
               if ty = JStr ''message'' then on_message self e session_id ws message_data w
               else if ty = JStr ''typing'' then on_typing e ws message_data w
               else (Inr (), w)))"

text \<open>
  The loop with its two handlers, run on the frames that arrive. It ends \<open>Closed\<close> when a
  pass raised (both handlers unregister the connection and the endpoint returns), and
  \<open>Active\<close> when every frame given was handled and the loop waits for the next.
\<close>

datatype conn_state = Active | Closed

fun receive_loop :: "RasaClient \<Rightarrow> env \<Rightarrow> string \<Rightarrow> websocket \<Rightarrow> inbound list \<Rightarrow> world
    \<Rightarrow> conn_state \<times> world" where
  "receive_loop self e session_id ws [] w = (Active, w)"
| "receive_loop self e session_id ws (frame # frames) w =
     (case loop_body self e session_id ws frame w of
        (Inr u, w') \<Rightarrow> receive_loop self e session_id ws frames w'
      | (Inl x, w') \<Rightarrow> (Closed, disconnect ws w'))"

definition websocket_chat_endpoint :: "RasaClient \<Rightarrow> env \<Rightarrow> websocket \<Rightarrow> string \<Rightarrow> inbound list \<Rightarrow> world
    \<Rightarrow> (py_exn + conn_state) \<times> world" where
  "websocket_chat_endpoint self e ws session_id frames w =
     (case connect e ws w of
        (Inl x, w0) \<Rightarrow> (Inl x, w0)
      | (Inr u, w0) \<Rightarrow>
          (let (t1, w1) = read_clock e w0;
               welcome_message = JObj [(''type'', JStr ''system''),
                                       (''message'', JStr ''Connected to healthcare chatbot. How can I help you today?''),
                                       (''timestamp'', JStr t1)];
               (r2, w2) = send_personal_message e welcome_message ws w1;
               (st, w3) = receive_loop self e session_id ws frames w2
           in (Inr st, w3)))"

section \<open>The symptom assessment action\<close>

text \<open>
  The value of the \<open>symptoms\<close> slot: unset, a single text, or a list of texts.
\<close>

datatype slot = SlotNone | SlotText string | SlotList "string list"

text \<open>
  The \<open>text\<close> entry of \<open>tracker.latest_message\<close>: the key may be missing, and it is
  present with the value \<open>None\<close> when no user message has arrived yet.
\<close>

datatype text_entry = Missing | TextNone | TextStr string

record Tracker =
  symptoms_slot :: slot
  latest_message_text :: text_entry

datatype event = SlotSet string string

text \<open>
  Lines 33 to 39: \<open>tracker.get_slot("symptoms") or []\<close> replaces an unset slot, an
  empty text and an empty list by the empty list; a text is then wrapped in a list.
\<close>

fun symptoms_of :: "slot \<Rightarrow> string list" where
  "symptoms_of SlotNone = []"
| "symptoms_of (SlotText s) = (if s = [] then [] else [s])"
| "symptoms_of (SlotList xs) = xs"

text \<open>\<open>" ".join(xs)\<close>\<close>

fun join_space :: "string list \<Rightarrow> string" where
  "join_space [] = []"
| "join_space [x] = x"
| "join_space (x # y # ys) = x @ '' '' @ join_space (y # ys)"

definition emergency_symptoms :: "string list" where
  "emergency_symptoms = [''chest pain'', ''difficulty breathing'', ''severe bleeding'', ''heart attack'']"

definition high_priority :: "string list" where
  "high_priority = [''severe pain'', ''high fever'', ''vomiting blood'']"

text \<open>
  Lines 44 to 46. \<open>str.lower\<close> is Python's own; the action is modelled for any
  lowering function \<open>lower\<close>. Calling \<open>.lower()\<close> on \<open>None\<close> raises.
\<close>

definition combined_text :: "(string \<Rightarrow> string) \<Rightarrow> Tracker \<Rightarrow> py_exn + string" where
  "combined_text lower tracker =
     (let symptoms = symptoms_of (symptoms_slot tracker);
          symptom_text = (if symptoms \<noteq> [] then lower (join_space symptoms) else [])
      in case latest_message_text tracker of
           TextNone \<Rightarrow> Inl AttributeError
         | Missing \<Rightarrow> Inr (symptom_text @ '' '' @ lower [])
         | TextStr s \<Rightarrow> Inr (symptom_text @ '' '' @ lower s))"

text \<open>\<open>keyword in combined_text\<close> is the contiguous-sublist test \<^const>\<open>sublist\<close>.\<close>

definition any_in :: "string list \<Rightarrow> string \<Rightarrow> bool" where
  "any_in keywords txt = list_ex (\<lambda>k. sublist k txt) keywords"

text \<open>
  \<open>run\<close> returns the events and, through the dispatcher, utters messages; the result is
  the list of messages uttered, in order, and the list of events.
\<close>

definition ActionAssessSymptoms_run :: "(string \<Rightarrow> string) \<Rightarrow> Tracker \<Rightarrow> py_exn + (string list \<times> event list)" where
  "ActionAssessSymptoms_run lower tracker =
     (let symptoms = symptoms_of (symptoms_slot tracker) in
      case combined_text lower tracker of
        Inl x \<Rightarrow> Inl x
      | Inr txt \<Rightarrow>
          (let (urgency_level, uttered) =
             (if any_in emergency_symptoms txt then
                (''emergency'',
                 [CHR 0xF0, CHR 0x9F, CHR 0x9A, CHR 0xA8] @
                 '' This sounds like a medical emergency. Please call 911 immediately or go to the nearest emergency room!'')
              else if any_in high_priority txt then
                (''high'',
                 [CHR 0xE2, CHR 0x9A, CHR 0xA0, CHR 0xEF, CHR 0xB8, CHR 0x8F] @
                 '' Your symptoms suggest you should seek immediate medical attention. Please contact your healthcare provider right away.'')
              else if symptoms \<noteq> [] \<and> length symptoms > 1 then
                (''medium'',
                 [CHR 0xF0, CHR 0x9F, CHR 0x93, CHR 0x9E] @
                 '' Based on your symptoms, I recommend contacting your healthcare provider within 24 hours.'')
              else
                (''low'',
                 [CHR 0xF0, CHR 0x9F, CHR 0x93, CHR 0x8B] @
                 '' Your symptoms appear to be minor. Consider monitoring them and schedule a routine appointment if they persist.''))
           in Inr ([uttered, ''Would you like me to help you book an appointment?''],
                   [SlotSet ''urgency_level'' urgency_level])))"

text \<open>A lowering function for ASCII text, where it agrees with \<open>str.lower\<close>.\<close>

definition ascii_lower :: "string \<Rightarrow> string" where
  "ascii_lower s =
     map (\<lambda>c. if 65 \<le> (of_char c :: nat) \<and> (of_char c :: nat) \<le> 90
              then char_of ((of_char c :: nat) + 32) else c) s"

section \<open>Predicates used in the statements\<close>

text \<open>
  An endpoint fails when the POST raises (a transport error, a timeout, any other
  exception) or answers with a status other than 200.
\<close>

fun endpoint_fails :: "http_outcome \<Rightarrow> bool" where
  "endpoint_fails (Raises e) = True"
| "endpoint_fails (Response status_code body) = (status_code \<noteq> 200)"


section \<open>Sample environments\<close>

text \<open>Every POST fails to connect.\<close>

definition net_down :: network where
  "net_down k url payload = Raises ConnectError"

text \<open>The first two POSTs fail to connect, every later one is answered with one reply.\<close>

definition net_third :: network where
  "net_third k url payload =
     (if k < 2 then Raises ConnectError
      else Response 200 (Some (JArr [JObj [(''recipient_id'', JStr ''s1''), (''text'', JStr ''Hello'')]])))"

text \<open>The first POST times out, every later one is answered with an empty list.\<close>

definition net_empty :: network where
  "net_empty k url payload =
     (if k < 1 then Raises TimeoutException else Response 200 (Some (JArr [])))"

text \<open>
  The text CPython gives the \<open>TypeError\<close> raised by \<open>None[:100]\<close>, the one exception
  that reaches the handler in the sample runs.
\<close>

definition str_none_sliced :: "py_exn \<Rightarrow> string" where
  "str_none_sliced e = [CHR 0x27] @ ''NoneType'' @ [CHR 0x27] @ '' object is not subscriptable''"

text \<open>Every POST is answered with one reply whose text is \<open>null\<close>.\<close>

definition net_null_text :: network where
  "net_null_text k url payload = Response 200 (Some (JArr [JObj [(''text'', JNull)]]))"

text \<open>
  A connection environment where every write succeeds, and one where every write raises;
  a state in which connection 7 is the only registered connection.
\<close>

definition env_ok :: env where
  "env_ok = \<lparr> net = net_third, send_text_raises = (\<lambda>k ws. None),
              accept_raises = (\<lambda>ws. None), utcnow = (\<lambda>k. ''2024-01-15T10:00:00'') \<rparr>"

definition env_write_fails :: env where
  "env_write_fails = \<lparr> net = net_third, send_text_raises = (\<lambda>k ws. Some RuntimeError),
                       accept_raises = (\<lambda>ws. None), utcnow = (\<lambda>k. ''2024-01-15T10:00:00'') \<rparr>"

definition world0 :: world where
  "world0 = \<lparr> active_connections = [7], sent = [], writes = 0, posts = 0,
              clock_reads = 0, http_log = [] \<rparr>"

text \<open>Sample trackers.\<close>

definition tracker_chest :: Tracker where
  "tracker_chest = \<lparr> symptoms_slot = SlotList [''Headache'', ''severe pain''],
                      latest_message_text = TextStr ''I have CHEST PAIN and a high fever'' \<rparr>"

definition tracker_empty :: Tracker where
  "tracker_empty = \<lparr> symptoms_slot = SlotNone, latest_message_text = Missing \<rparr>"

text \<open>The tracker of a conversation in which no user message has arrived yet.\<close>

definition tracker_no_message :: Tracker where
  "tracker_no_message = \<lparr> symptoms_slot = SlotNone, latest_message_text = TextNone \<rparr>"

definition tracker_two :: Tracker where
  "tracker_two = \<lparr> symptoms_slot = SlotList [''cough'', ''runny nose''],
                    latest_message_text = TextStr ''I feel unwell'' \<rparr>"

section \<open>Facts about the endpoint loop\<close>

lemma except_clauses_Continue: "except_clauses e = Continue"
  by (cases e) simp_all

lemma try_body_fails:
  "endpoint_fails outcome \<Longrightarrow> try_body outcome \<noteq> Inr (Returned r)"
  by (cases outcome) (simp_all add: try_body_def)

lemma try_urls_Cons_fails:
  assumes "endpoint_fails (nw t (webhook url) payload)"
  shows "try_urls nw t (url # urls) payload =
           (fst (try_urls nw (Suc t) urls payload),
            (webhook url, payload) # snd (try_urls nw (Suc t) urls payload))"
proof (cases "try_body (nw t (webhook url) payload)")
  case (Inl e)
  then show ?thesis
    by (simp add: except_clauses_Continue split: prod.splits)
next
  case (Inr a)
  with try_body_fails [OF assms] have "a = Fell_through"
    by (cases a) auto
  with Inr show ?thesis
    by (simp split: prod.splits)
qed

lemma try_urls_skip_failing:
  assumes "\<forall>i < length pre. endpoint_fails (nw (t + i) (webhook (pre ! i)) payload)"
  shows "try_urls nw t (pre @ rest) payload =
           (fst (try_urls nw (t + length pre) rest payload),
            map (\<lambda>u. (webhook u, payload)) pre @ snd (try_urls nw (t + length pre) rest payload))"
  using assms
proof (induction pre arbitrary: t)
  case Nil
  then show ?case by simp
next
  case (Cons url pre)
  from Cons.prems have head: "endpoint_fails (nw t (webhook url) payload)"
    by force
  from Cons.prems have "\<forall>i < length pre. endpoint_fails (nw (Suc t + i) (webhook (pre ! i)) payload)"
    by force
  from Cons.IH [OF this] try_urls_Cons_fails [of nw t url payload "pre @ rest", OF head] show ?case
    by simp
qed

lemma try_urls_returns: "\<exists>r. fst (try_urls nw t urls payload) = Inr r"
proof (induction urls arbitrary: t)
  case Nil
  then show ?case by simp
next
  case (Cons url urls)
  from Cons.IH [of "Suc t"] show ?case
    by (auto simp: Let_def except_clauses_Continue split: sum.splits attempt.splits prod.splits)
qed

lemma try_urls_prefix:
  "map fst (snd (try_urls nw t urls payload)) = map webhook (take (length (snd (try_urls nw t urls payload))) urls)
   \<and> (\<forall>q \<in> set (snd (try_urls nw t urls payload)). snd q = payload)"
proof (induction urls arbitrary: t)
  case Nil
  then show ?case by simp
next
  case (Cons url urls)
  from Cons.IH [of "Suc t"] show ?case
    by (auto simp: Let_def except_clauses_Continue split: sum.splits attempt.splits prod.splits)
qed

lemma try_urls_first_request:
  "\<exists>reqs. snd (try_urls nw t (url # urls) payload) = (webhook url, payload) # reqs"
  by (auto simp: Let_def except_clauses_Continue split: sum.splits attempt.splits prod.splits)

lemma urls_rasa_client:
  "urls_to_try rasa_client =
     [''http://localhost:5005'', ''http://localhost:5005'', ''http://127.0.0.1:5005'', ''http://rasa:5005'']"
  by (simp add: urls_to_try_def rasa_client_def RasaClient_init_def)

text \<open>
  When the first \<open>N\<close> addresses fail and the next attempt returns from the \<open>try\<close>
  block, the loop ends there: the requests issued are those for the first \<open>N + 1\<close>
  addresses, in the order of the list.
\<close>

lemma try_urls_first_answer:
  assumes "N < length urls"
    and "\<forall>i < N. endpoint_fails (nw (t + i) (webhook (urls ! i)) payload)"
    and "try_body (nw (t + N) (webhook (urls ! N)) payload) = Inr (Returned r)"
  shows "try_urls nw t urls payload = (Inr r, map (\<lambda>u. (webhook u, payload)) (take (Suc N) urls))"
proof -
  define pre where "pre = take N urls"
  define rest where "rest = drop (Suc N) urls"
  have split: "urls = pre @ (urls ! N) # rest"
    using assms(1) by (simp add: pre_def rest_def id_take_nth_drop)
  have len: "length pre = N"
    using assms(1) by (simp add: pre_def)
  have "\<forall>i < length pre. endpoint_fails (nw (t + i) (webhook (pre ! i)) payload)"
    using assms(2) by (simp add: pre_def)
  then have skipped: "try_urls nw t (pre @ (urls ! N) # rest) payload =
               (fst (try_urls nw (t + length pre) ((urls ! N) # rest) payload),
                map (\<lambda>u. (webhook u, payload)) pre @
                snd (try_urls nw (t + length pre) ((urls ! N) # rest) payload))"
    by (rule try_urls_skip_failing)
  have answered: "try_urls nw (t + N) ((urls ! N) # rest) payload = (Inr r, [(webhook (urls ! N), payload)])"
    using assms(3) by simp
  have attempted: "take (Suc N) urls = pre @ [urls ! N]"
    using assms(1) by (simp add: pre_def take_Suc_conv_app_nth)
  have "try_urls nw t urls payload = try_urls nw t (pre @ (urls ! N) # rest) payload"
    using split by (rule arg_cong)
  also have "\<dots> = (Inr r, map (\<lambda>u. (webhook u, payload)) pre @ [(webhook (urls ! N), payload)])"
    unfolding skipped len answered by simp
  also have "\<dots> = (Inr r, map (\<lambda>u. (webhook u, payload)) (take (Suc N) urls))"
    unfolding attempted by simp
  finally show ?thesis .
qed

section \<open>Dispatch to the dialogue backend\<close>

text \<open>
  Claim C3. When \<open>send_message\<close> reaches an address that answers with status 200 and an
  empty list of replies (the \<open>N\<close> addresses before it having failed), it returns the
  fallback reply at once, and the requests it issued are exactly those for the first
  \<open>N + 1\<close> addresses: no later address is attempted.
\<close>

theorem empty_reply_returns_fallback_at_once:
  assumes "N < length (urls_to_try self)"
    and "\<forall>i < N. endpoint_fails (nw (t + i) (webhook (urls_to_try self ! i))
                  (JObj [(''sender'', sender), (''message'', message)]))"
    and "nw (t + N) (webhook (urls_to_try self ! N)) (JObj [(''sender'', sender), (''message'', message)])
           = Response 200 (Some (JArr []))"
  shows "fst (send_message self nw t message sender) = Inr (create_fallback_response ''Rasa returned no responses'')
       \<and> snd (send_message self nw t message sender) =
           map (\<lambda>u. (webhook u, JObj [(''sender'', sender), (''message'', message)]))
               (take (Suc N) (urls_to_try self))"
proof -
  let ?payload = "JObj [(''sender'', sender), (''message'', message)]"
  from assms(3)
  have "try_body (nw (t + N) (webhook (urls_to_try self ! N)) ?payload)
          = Inr (Returned (create_fallback_response ''Rasa returned no responses''))"
    by (simp add: try_body_def)
  with assms(1,2)
  have "try_urls nw t (urls_to_try self) ?payload =
          (Inr (create_fallback_response ''Rasa returned no responses''),
           map (\<lambda>u. (webhook u, ?payload)) (take (Suc N) (urls_to_try self)))"
    by (rule try_urls_first_answer)
  then show ?thesis
    by (simp add: send_message_def)
qed

theorem empty_reply_returns_fallback_at_once_witness:
  "endpoint_fails (net_empty 0 (webhook ''http://localhost:5005'') (JObj [(''sender'', JStr ''s1''), (''message'', JStr ''hello'')]))
   \<and> net_empty 1 (webhook ''http://localhost:5005'') (JObj [(''sender'', JStr ''s1''), (''message'', JStr ''hello'')]) = Response 200 (Some (JArr []))
   \<and> fst (send_message rasa_client net_empty 0 (JStr ''hello'') (JStr ''s1''))
        = Inr (create_fallback_response ''Rasa returned no responses'')
   \<and> snd (send_message rasa_client net_empty 0 (JStr ''hello'') (JStr ''s1'')) =
        [(''http://localhost:5005/webhooks/rest/webhook'', JObj [(''sender'', JStr ''s1''), (''message'', JStr ''hello'')]),
         (''http://localhost:5005/webhooks/rest/webhook'', JObj [(''sender'', JStr ''s1''), (''message'', JStr ''hello'')])]"
proof -
  have bound: "1 < length (urls_to_try rasa_client)"
    by (simp add: urls_rasa_client)
  have before: "\<forall>i < 1. endpoint_fails (net_empty (0 + i) (webhook (urls_to_try rasa_client ! i)) (JObj [(''sender'', JStr ''s1''), (''message'', JStr ''hello'')]))"
    by (simp add: net_empty_def)
  have answer: "net_empty (0 + 1) (webhook (urls_to_try rasa_client ! 1)) (JObj [(''sender'', JStr ''s1''), (''message'', JStr ''hello'')]) = Response 200 (Some (JArr []))"
    by (simp add: net_empty_def)
  from empty_reply_returns_fallback_at_once
         [where N = 1 and self = rasa_client and nw = net_empty and t = 0
            and sender = "JStr ''s1''" and message = "JStr ''hello''", OF bound before answer]
  show ?thesis
    by (simp add: net_empty_def urls_rasa_client webhook_def)
qed

text \<open>
  Claim C4. \<open>send_message\<close> never raises: it always returns a reply. When every address
  of the list fails (the POST raises, or the status is not 200), the reply is the
  fallback: the fixed text and exactly three buttons, Report Symptoms, Book Appointment
  and Get Advice.
\<close>

theorem send_message_never_raises_and_falls_back:
  "(\<exists>r. fst (send_message self nw t message sender) = Inr r) \<and>
   ((\<forall>i < length (urls_to_try self).
        endpoint_fails (nw (t + i) (webhook (urls_to_try self ! i))
                        (JObj [(''sender'', sender), (''message'', message)]))) \<longrightarrow>
    fst (send_message self nw t message sender) =
      Inr (JObj [(''text'', JStr (''I'' @ [CHR 0x27] @ ''m having trouble processing your message right now. How can I help you with your health concerns?'')),
                 (''buttons'', JArr
                    [JObj [(''title'', JStr ''Report Symptoms''), (''payload'', JStr ''/report_symptoms'')],
                     JObj [(''title'', JStr ''Book Appointment''), (''payload'', JStr ''/book_appointment'')],
                     JObj [(''title'', JStr ''Get Advice''), (''payload'', JStr ''/get_health_advice'')]])]))"
proof (intro conjI impI)
  show "\<exists>r. fst (send_message self nw t message sender) = Inr r"
    unfolding send_message_def by (rule try_urls_returns)
next
  let ?payload = "JObj [(''sender'', sender), (''message'', message)]"
  assume "\<forall>i < length (urls_to_try self). endpoint_fails (nw (t + i) (webhook (urls_to_try self ! i)) ?payload)"
  then have "try_urls nw t (urls_to_try self @ []) ?payload =
               (fst (try_urls nw (t + length (urls_to_try self)) [] ?payload),
                map (\<lambda>u. (webhook u, ?payload)) (urls_to_try self) @
                snd (try_urls nw (t + length (urls_to_try self)) [] ?payload))"
    by (rule try_urls_skip_failing)
  then show "fst (send_message self nw t message sender) =
      Inr (JObj [(''text'', JStr (''I'' @ [CHR 0x27] @ ''m having trouble processing your message right now. How can I help you with your health concerns?'')),
                 (''buttons'', JArr
                    [JObj [(''title'', JStr ''Report Symptoms''), (''payload'', JStr ''/report_symptoms'')],
                     JObj [(''title'', JStr ''Book Appointment''), (''payload'', JStr ''/book_appointment'')],
                     JObj [(''title'', JStr ''Get Advice''), (''payload'', JStr ''/get_health_advice'')]])])"
    by (simp add: send_message_def create_fallback_response_def)
qed

theorem send_message_never_raises_and_falls_back_witness:
  "endpoint_fails (net_down 0 (webhook ''http://localhost:5005'') (JObj [(''sender'', JStr ''s1''), (''message'', JStr ''hello'')]))
   \<and> endpoint_fails (net_down 1 (webhook ''http://localhost:5005'') (JObj [(''sender'', JStr ''s1''), (''message'', JStr ''hello'')]))
   \<and> endpoint_fails (net_down 2 (webhook ''http://127.0.0.1:5005'') (JObj [(''sender'', JStr ''s1''), (''message'', JStr ''hello'')]))
   \<and> endpoint_fails (net_down 3 (webhook ''http://rasa:5005'') (JObj [(''sender'', JStr ''s1''), (''message'', JStr ''hello'')]))
   \<and> fst (send_message rasa_client net_down 0 (JStr ''hello'') (JStr ''s1'')) =
      Inr (JObj [(''text'', JStr (''I'' @ [CHR 0x27] @ ''m having trouble processing your message right now. How can I help you with your health concerns?'')),
                 (''buttons'', JArr
                    [JObj [(''title'', JStr ''Report Symptoms''), (''payload'', JStr ''/report_symptoms'')],
                     JObj [(''title'', JStr ''Book Appointment''), (''payload'', JStr ''/book_appointment'')],
                     JObj [(''title'', JStr ''Get Advice''), (''payload'', JStr ''/get_health_advice'')]])])"
proof -
  have all_fail: "\<forall>i < length (urls_to_try rasa_client).
          endpoint_fails (net_down (0 + i) (webhook (urls_to_try rasa_client ! i)) (JObj [(''sender'', JStr ''s1''), (''message'', JStr ''hello'')]))"
    by (simp add: net_down_def)
  from send_message_never_raises_and_falls_back [of rasa_client net_down 0 "JStr ''hello''" "JStr ''s1''"] all_fail
  show ?thesis
    by (simp add: net_down_def)
qed

text \<open>
  Claim C5. When the first \<open>N\<close> addresses of the list fail and address \<open>N + 1\<close> answers
  with status 200 and a non-empty list of replies, \<open>send_message\<close> returns the first
  reply of that list, and the requests it issued are those for the first \<open>N + 1\<close>
  addresses, in the order of the list.
\<close>

theorem send_message_returns_first_reply_in_order:
  assumes "N < length (urls_to_try self)"
    and "\<forall>i < N. endpoint_fails (nw (t + i) (webhook (urls_to_try self ! i))
                  (JObj [(''sender'', sender), (''message'', message)]))"
    and "nw (t + N) (webhook (urls_to_try self ! N)) (JObj [(''sender'', sender), (''message'', message)])
           = Response 200 (Some (JArr (reply # others)))"
  shows "send_message self nw t message sender =
           (Inr reply,
            map (\<lambda>u. (webhook u, JObj [(''sender'', sender), (''message'', message)]))
                (take (Suc N) (urls_to_try self)))"
  unfolding send_message_def
  using assms(1,2)
proof (rule try_urls_first_answer)
  show "try_body (nw (t + N) (webhook (urls_to_try self ! N)) (JObj [(''sender'', sender), (''message'', message)]))
          = Inr (Returned reply)"
    by (simp add: assms(3) try_body_def)
qed

theorem send_message_returns_first_reply_in_order_witness:
  "endpoint_fails (net_third 0 (webhook ''http://localhost:5005'') (JObj [(''sender'', JStr ''s1''), (''message'', JStr ''hello'')]))
   \<and> endpoint_fails (net_third 1 (webhook ''http://localhost:5005'') (JObj [(''sender'', JStr ''s1''), (''message'', JStr ''hello'')]))
   \<and> net_third 2 (webhook ''http://127.0.0.1:5005'') (JObj [(''sender'', JStr ''s1''), (''message'', JStr ''hello'')]) = Response 200 (Some (JArr [JObj [(''recipient_id'', JStr ''s1''), (''text'', JStr ''Hello'')]]))
   \<and> send_message rasa_client net_third 0 (JStr ''hello'') (JStr ''s1'') =
        (Inr (JObj [(''recipient_id'', JStr ''s1''), (''text'', JStr ''Hello'')]),
         [(''http://localhost:5005/webhooks/rest/webhook'', JObj [(''sender'', JStr ''s1''), (''message'', JStr ''hello'')]),
          (''http://localhost:5005/webhooks/rest/webhook'', JObj [(''sender'', JStr ''s1''), (''message'', JStr ''hello'')]),
          (''http://127.0.0.1:5005/webhooks/rest/webhook'', JObj [(''sender'', JStr ''s1''), (''message'', JStr ''hello'')])])"
proof -
  have bound: "2 < length (urls_to_try rasa_client)"
    by (simp add: urls_rasa_client)
  have before: "\<forall>i < 2. endpoint_fails (net_third (0 + i) (webhook (urls_to_try rasa_client ! i)) (JObj [(''sender'', JStr ''s1''), (''message'', JStr ''hello'')]))"
    by (simp add: net_third_def)
  have answer: "net_third (0 + 2) (webhook (urls_to_try rasa_client ! 2)) (JObj [(''sender'', JStr ''s1''), (''message'', JStr ''hello'')])
                  = Response 200 (Some (JArr ((JObj [(''recipient_id'', JStr ''s1''), (''text'', JStr ''Hello'')]) # [])))"
    by (simp add: net_third_def)
  from send_message_returns_first_reply_in_order
         [where N = 2 and self = rasa_client and nw = net_third and t = 0
            and sender = "JStr ''s1''" and message = "JStr ''hello''", OF bound before answer]
  show ?thesis
    by (simp add: net_third_def urls_rasa_client webhook_def numeral_2_eq_2 numeral_3_eq_3)
qed

text \<open>
  Claim C9. The addresses \<open>send_message\<close> attempts are an initial part of the primary
  address followed by the fallback list. For the client the application constructs,
  the fallback list starts with the primary address \<open>http://localhost:5005\<close> itself, so
  when the first attempt fails the second attempt goes to the primary address again.
\<close>

theorem primary_attempted_twice:
  "map fst (snd (send_message self nw t message sender)) =
     map webhook (take (length (snd (send_message self nw t message sender)))
                       (rasa_url self # fallback_urls self))
   \<and> rasa_url rasa_client = ''http://localhost:5005''
   \<and> hd (fallback_urls rasa_client) = rasa_url rasa_client
   \<and> (endpoint_fails (nw t (webhook ''http://localhost:5005'') (JObj [(''sender'', sender), (''message'', message)]))
        \<longrightarrow> take 2 (map fst (snd (send_message rasa_client nw t message sender))) =
              [webhook ''http://localhost:5005'', webhook ''http://localhost:5005''])"
proof (intro conjI impI)
  show "map fst (snd (send_message self nw t message sender)) =
     map webhook (take (length (snd (send_message self nw t message sender)))
                       (rasa_url self # fallback_urls self))"
    using try_urls_prefix [of nw t "urls_to_try self"]
    by (simp add: send_message_def urls_to_try_def)
next
  show "rasa_url rasa_client = ''http://localhost:5005''"
    by (simp add: rasa_client_def RasaClient_init_def)
next
  show "hd (fallback_urls rasa_client) = rasa_url rasa_client"
    by (simp add: rasa_client_def RasaClient_init_def)
next
  let ?payload = "JObj [(''sender'', sender), (''message'', message)]"
  let ?others = "[''http://127.0.0.1:5005'', ''http://rasa:5005'']"
  assume "endpoint_fails (nw t (webhook ''http://localhost:5005'') ?payload)"
  then have "try_urls nw t (''http://localhost:5005'' # ''http://localhost:5005'' # ?others) ?payload =
           (fst (try_urls nw (Suc t) (''http://localhost:5005'' # ?others) ?payload),
            (webhook ''http://localhost:5005'', ?payload) #
            snd (try_urls nw (Suc t) (''http://localhost:5005'' # ?others) ?payload))"
    by (rule try_urls_Cons_fails)
  moreover obtain reqs where
    "snd (try_urls nw (Suc t) (''http://localhost:5005'' # ?others) ?payload) =
       (webhook ''http://localhost:5005'', ?payload) # reqs"
    using try_urls_first_request by blast
  ultimately have "snd (send_message rasa_client nw t message sender) =
      (webhook ''http://localhost:5005'', ?payload) # (webhook ''http://localhost:5005'', ?payload) # reqs"
    unfolding send_message_def urls_rasa_client by simp
  then show "take 2 (map fst (snd (send_message rasa_client nw t message sender))) =
              [webhook ''http://localhost:5005'', webhook ''http://localhost:5005'']"
    by simp
qed

theorem primary_attempted_twice_witness:
  "endpoint_fails (net_third 0 (webhook ''http://localhost:5005'')
                    (JObj [(''sender'', JStr ''s1''), (''message'', JStr ''hello'')]))
   \<and> take 2 (map fst (snd (send_message rasa_client net_third 0 (JStr ''hello'') (JStr ''s1'')))) =
        [''http://localhost:5005/webhooks/rest/webhook'', ''http://localhost:5005/webhooks/rest/webhook'']"
proof -
  have fails: "endpoint_fails (net_third 0 (webhook ''http://localhost:5005'')
                 (JObj [(''sender'', JStr ''s1''), (''message'', JStr ''hello'')]))"
    by (simp add: net_third_def)
  from primary_attempted_twice [of rasa_client net_third 0 "JStr ''hello''" "JStr ''s1''"]
  have "endpoint_fails (net_third 0 (webhook ''http://localhost:5005'')
                 (JObj [(''sender'', JStr ''s1''), (''message'', JStr ''hello'')]))
        \<longrightarrow> take 2 (map fst (snd (send_message rasa_client net_third 0 (JStr ''hello'') (JStr ''s1'')))) =
              [webhook ''http://localhost:5005'', webhook ''http://localhost:5005'']"
    by blast
  with fails show ?thesis
    by (simp add: webhook_def)
qed

section \<open>The REST chat endpoint: facts and claims\<close>

lemma chat_try_falsy:
  assumes "\<not> truthy (case map_of request ''message'' of None \<Rightarrow> JStr [] | Some v \<Rightarrow> v)"
  shows "chat_try self nw t now request = (Inr (400, JObj [(''error'', JStr ''Message is required'')]), [])"
  using assms by (simp add: chat_try_def)

lemma chat_try_truthy:
  assumes "truthy (case map_of request ''message'' of None \<Rightarrow> JStr [] | Some v \<Rightarrow> v)"
  shows "chat_try self nw t now request =
    (let message = (case map_of request ''message'' of None \<Rightarrow> JStr [] | Some v \<Rightarrow> v);
         session_id = (case map_of request ''session_id'' of None \<Rightarrow> JStr ''default_session'' | Some v \<Rightarrow> v)
     in case send_message self nw t message session_id of
              (Inl e, reqs) \<Rightarrow> (Inl e, reqs)
            | (Inr rasa_response, reqs) \<Rightarrow>
                (case py_get rasa_response ''text'' (JStr []) of
                   Inl e \<Rightarrow> (Inl e, reqs)
                 | Inr text \<Rightarrow>
                     (case py_get rasa_response ''buttons'' (JArr []) of
                        Inl e \<Rightarrow> (Inl e, reqs)
                      | Inr buttons \<Rightarrow>
                          (case py_slice100 text of
                             Inl e \<Rightarrow> (Inl e, reqs)
                           | Inr logged \<Rightarrow>
                               (Inr (200, JObj [(''text'', text),
                                                (''buttons'', buttons),
                                                (''session_id'', session_id),
                                                (''timestamp'', JStr now)]), reqs)))))"
  using assms by (simp add: chat_try_def Let_def)

lemma chat_try_requests:
  assumes "truthy (case map_of request ''message'' of None \<Rightarrow> JStr [] | Some v \<Rightarrow> v)"
  shows "snd (chat_try self nw t now request) =
     snd (send_message self nw t (case map_of request ''message'' of None \<Rightarrow> JStr [] | Some v \<Rightarrow> v)
            (case map_of request ''session_id'' of None \<Rightarrow> JStr ''default_session'' | Some v \<Rightarrow> v))"
  unfolding chat_try_truthy [OF assms] Let_def
  by (simp split: prod.splits sum.splits)

lemma chat_endpoint_requests:
  "snd (chat_endpoint str_e self nw t now request) = snd (chat_try self nw t now request)"
  by (simp add: chat_endpoint_def split: prod.splits sum.splits)

lemma chat_try_status:
  assumes "fst (chat_try self nw t now request) = Inr (status_code, content)"
  shows "(status_code = 400 \<and> \<not> truthy (case map_of request ''message'' of None \<Rightarrow> JStr [] | Some v \<Rightarrow> v))
       \<or> (status_code = 200 \<and> truthy (case map_of request ''message'' of None \<Rightarrow> JStr [] | Some v \<Rightarrow> v)
            \<and> map_of (case content of JObj kvs \<Rightarrow> kvs | _ \<Rightarrow> []) ''session_id''
                = Some (case map_of request ''session_id'' of None \<Rightarrow> JStr ''default_session'' | Some v \<Rightarrow> v))"
proof (cases "truthy (case map_of request ''message'' of None \<Rightarrow> JStr [] | Some v \<Rightarrow> v)")
  case False
  with assms show ?thesis by (simp add: chat_try_falsy)
next
  case True
  from assms show ?thesis
    unfolding chat_try_truthy [OF True] Let_def
    by (auto split: prod.splits sum.splits simp: True)
qed


lemma chat_endpoint_of_try:
  "fst (chat_endpoint str_e self nw t now request) =
     (case fst (chat_try self nw t now request) of
        Inr answer \<Rightarrow> answer
      | Inl e \<Rightarrow> (500, JObj [(''error'', JStr ''Internal server error''), (''detail'', JStr (str_e e))]))"
  by (simp add: chat_endpoint_def split: prod.splits sum.splits)

text \<open>
  Claim C8. \<open>POST /api/v1/chat\<close>: when the message is missing or empty the answer is
  status 400 with an error payload; when the message is non-empty and \<open>send_message\<close>
  returns a reply (a dict whose text, when present, is a string) the answer is status 200
  with the fields text, buttons, session_id and timestamp; when the \<open>try\<close> block
  raises, the answer is status 500 with an error payload.
\<close>

theorem chat_endpoint_statuses:
  assumes "message = (case map_of request ''message'' of None \<Rightarrow> JStr [] | Some v \<Rightarrow> v)"
    and "session_id = (case map_of request ''session_id'' of None \<Rightarrow> JStr ''default_session'' | Some v \<Rightarrow> v)"
  shows "(map_of request ''message'' = None \<or> map_of request ''message'' = Some (JStr []) \<longrightarrow>
            fst (chat_endpoint str_e self nw t now request) = (400, JObj [(''error'', JStr ''Message is required'')]))
       \<and> (truthy message \<and> fst (send_message self nw t message session_id) = Inr (JObj reply)
            \<and> (map_of reply ''text'' = None \<or> (\<exists>s. map_of reply ''text'' = Some (JStr s))) \<longrightarrow>
            fst (chat_endpoint str_e self nw t now request) =
              (200, JObj [(''text'', case map_of reply ''text'' of None \<Rightarrow> JStr [] | Some v \<Rightarrow> v),
                          (''buttons'', case map_of reply ''buttons'' of None \<Rightarrow> JArr [] | Some v \<Rightarrow> v),
                          (''session_id'', session_id),
                          (''timestamp'', JStr now)]))
       \<and> (fst (chat_try self nw t now request) = Inl e \<longrightarrow>
            fst (chat_endpoint str_e self nw t now request) =
              (500, JObj [(''error'', JStr ''Internal server error''), (''detail'', JStr (str_e e))]))"
proof (intro conjI impI)
  assume "map_of request ''message'' = None \<or> map_of request ''message'' = Some (JStr [])"
  then have "\<not> truthy (case map_of request ''message'' of None \<Rightarrow> JStr [] | Some v \<Rightarrow> v)"
    by auto
  then have "chat_try self nw t now request = (Inr (400, JObj [(''error'', JStr ''Message is required'')]), [])"
    by (rule chat_try_falsy)
  then show "fst (chat_endpoint str_e self nw t now request) = (400, JObj [(''error'', JStr ''Message is required'')])"
    by (simp add: chat_endpoint_of_try)
next
  assume a: "truthy message \<and> fst (send_message self nw t message session_id) = Inr (JObj reply)
            \<and> (map_of reply ''text'' = None \<or> (\<exists>s. map_of reply ''text'' = Some (JStr s)))"
  then have tr: "truthy (case map_of request ''message'' of None \<Rightarrow> JStr [] | Some v \<Rightarrow> v)"
    using assms(1) by simp
  obtain reqs where sm: "send_message self nw t message session_id = (Inr (JObj reply), reqs)"
    using a by (cases "send_message self nw t message session_id") auto
  from a have sliced: "\<exists>logged. py_slice100 (case map_of reply ''text'' of None \<Rightarrow> JStr [] | Some v \<Rightarrow> v) = Inr logged"
    by auto
  have "fst (chat_try self nw t now request) =
          Inr (200, JObj [(''text'', case map_of reply ''text'' of None \<Rightarrow> JStr [] | Some v \<Rightarrow> v),
                          (''buttons'', case map_of reply ''buttons'' of None \<Rightarrow> JArr [] | Some v \<Rightarrow> v),
                          (''session_id'', session_id),
                          (''timestamp'', JStr now)])"
    unfolding chat_try_truthy [OF tr] Let_def assms(1,2)[symmetric] sm
    using sliced by auto
  then show "fst (chat_endpoint str_e self nw t now request) =
              (200, JObj [(''text'', case map_of reply ''text'' of None \<Rightarrow> JStr [] | Some v \<Rightarrow> v),
                          (''buttons'', case map_of reply ''buttons'' of None \<Rightarrow> JArr [] | Some v \<Rightarrow> v),
                          (''session_id'', session_id),
                          (''timestamp'', JStr now)])"
    by (simp add: chat_endpoint_of_try)
next
  assume "fst (chat_try self nw t now request) = Inl e"
  then show "fst (chat_endpoint str_e self nw t now request) =
              (500, JObj [(''error'', JStr ''Internal server error''), (''detail'', JStr (str_e e))])"
    by (simp add: chat_endpoint_of_try)
qed

theorem chat_endpoint_statuses_witness:
  "map_of [(''session_id'', JStr ''s1'')] ''message'' = None
   \<and> fst (chat_endpoint str_none_sliced rasa_client net_down 0 ''2024-01-15T10:00:00'' [(''session_id'', JStr ''s1'')])
        = (400, JObj [(''error'', JStr ''Message is required'')])
   \<and> truthy (JStr ''hello'')
   \<and> fst (send_message rasa_client net_third 0 (JStr ''hello'') (JStr ''s1''))
        = Inr (JObj [(''recipient_id'', JStr ''s1''), (''text'', JStr ''Hello'')])
   \<and> fst (chat_endpoint str_none_sliced rasa_client net_third 0 ''2024-01-15T10:00:00''
             [(''message'', JStr ''hello''), (''session_id'', JStr ''s1'')])
        = (200, JObj [(''text'', JStr ''Hello''), (''buttons'', JArr []),
                      (''session_id'', JStr ''s1''), (''timestamp'', JStr ''2024-01-15T10:00:00'')])
   \<and> fst (chat_try rasa_client net_null_text 0 ''2024-01-15T10:00:00''
             [(''message'', JStr ''hello''), (''session_id'', JStr ''s1'')]) = Inl TypeError
   \<and> fst (chat_endpoint str_none_sliced rasa_client net_null_text 0 ''2024-01-15T10:00:00''
             [(''message'', JStr ''hello''), (''session_id'', JStr ''s1'')])
        = (500, JObj [(''error'', JStr ''Internal server error''), (''detail'', JStr ([CHR 0x27] @ ''NoneType'' @ [CHR 0x27] @ '' object is not subscriptable''))])"
proof -
  let ?now = "''2024-01-15T10:00:00''"
  let ?req = "[(''message'', JStr ''hello''), (''session_id'', JStr ''s1'')]"
  let ?reply = "[(''recipient_id'', JStr ''s1''), (''text'', JStr ''Hello'')]"
  have sent: "fst (send_message rasa_client net_third 0 (JStr ''hello'') (JStr ''s1'')) = Inr (JObj ?reply)"
    by (simp add: send_message_def urls_rasa_client net_third_def try_body_def)
  have raised: "fst (chat_try rasa_client net_null_text 0 ?now ?req) = Inl TypeError"
    by (simp add: chat_try_def send_message_def urls_rasa_client net_null_text_def try_body_def)
  have bad: "fst (chat_endpoint str_none_sliced rasa_client net_down 0 ?now [(''session_id'', JStr ''s1'')])
        = (400, JObj [(''error'', JStr ''Message is required'')])"
    using chat_endpoint_statuses [where request = "[(''session_id'', JStr ''s1'')]" and message = "JStr []"
                and session_id = "JStr ''s1''" and self = rasa_client and nw = net_down and t = 0 and now = ?now
                and str_e = str_none_sliced]
    by simp
  have good: "fst (chat_endpoint str_none_sliced rasa_client net_third 0 ?now ?req)
        = (200, JObj [(''text'', JStr ''Hello''), (''buttons'', JArr []),
                      (''session_id'', JStr ''s1''), (''timestamp'', JStr ?now)])"
    using chat_endpoint_statuses [where request = ?req and message = "JStr ''hello''" and session_id = "JStr ''s1''"
                and self = rasa_client and nw = net_third and t = 0 and now = ?now and reply = ?reply
                and str_e = str_none_sliced] sent
    by simp
  have failed: "fst (chat_endpoint str_none_sliced rasa_client net_null_text 0 ?now ?req)
        = (500, JObj [(''error'', JStr ''Internal server error''), (''detail'', JStr ([CHR 0x27] @ ''NoneType'' @ [CHR 0x27] @ '' object is not subscriptable''))])"
    using chat_endpoint_statuses [where request = ?req and message = "JStr ''hello''" and session_id = "JStr ''s1''"
                and self = rasa_client and nw = net_null_text and t = 0 and now = ?now and e = TypeError
                and str_e = str_none_sliced] raised
    by (simp add: str_none_sliced_def)
  from sent raised bad good failed show ?thesis
    by simp
qed

text \<open>
  Claim C10. When the body has no \<open>session_id\<close>, the handler uses
  \<open>default_session\<close>: it is the sender of every request issued to the backend and the
  session_id of a 200 answer. The missing field is never rejected: the status is 400
  exactly when the message is empty or missing.
\<close>

theorem missing_session_id_defaults:
  assumes "map_of request ''session_id'' = None"
    and "message = (case map_of request ''message'' of None \<Rightarrow> JStr [] | Some v \<Rightarrow> v)"
  shows "(truthy message \<longrightarrow>
            snd (chat_endpoint str_e self nw t now request) =
              snd (send_message self nw t message (JStr ''default_session''))
            \<and> snd (chat_endpoint str_e self nw t now request) \<noteq> []
            \<and> (\<forall>q \<in> set (snd (chat_endpoint str_e self nw t now request)).
                  snd q = JObj [(''sender'', JStr ''default_session''), (''message'', message)]))
       \<and> (\<forall>content. fst (chat_endpoint str_e self nw t now request) = (200, content) \<longrightarrow>
            py_get content ''session_id'' JNull = Inr (JStr ''default_session''))
       \<and> (fst (fst (chat_endpoint str_e self nw t now request)) = 400 \<longleftrightarrow> \<not> truthy message)"
proof (intro conjI impI allI)
  assume tr: "truthy message"
  then have tr': "truthy (case map_of request ''message'' of None \<Rightarrow> JStr [] | Some v \<Rightarrow> v)"
    using assms(2) by simp
  show reqs: "snd (chat_endpoint str_e self nw t now request) =
              snd (send_message self nw t message (JStr ''default_session''))"
    using chat_try_requests [OF tr', of self nw t now] assms
    by (simp add: chat_endpoint_requests)
  obtain more_reqs where first:
    "snd (try_urls nw t (rasa_url self # fallback_urls self)
            (JObj [(''sender'', JStr ''default_session''), (''message'', message)])) =
       (webhook (rasa_url self), JObj [(''sender'', JStr ''default_session''), (''message'', message)]) # more_reqs"
    using try_urls_first_request by blast
  then show "snd (chat_endpoint str_e self nw t now request) \<noteq> []"
    unfolding reqs by (simp add: send_message_def urls_to_try_def)
  show "\<forall>q \<in> set (snd (chat_endpoint str_e self nw t now request)).
                  snd q = JObj [(''sender'', JStr ''default_session''), (''message'', message)]"
    unfolding reqs send_message_def using try_urls_prefix by blast
next
  fix content
  assume ok: "fst (chat_endpoint str_e self nw t now request) = (200, content)"
  then have "fst (chat_try self nw t now request) = Inr (200, content)"
    by (auto simp: chat_endpoint_of_try split: sum.splits)
  from chat_try_status [OF this] assms(1)
  show "py_get content ''session_id'' JNull = Inr (JStr ''default_session'')"
    by (cases content) auto
next
  show "fst (fst (chat_endpoint str_e self nw t now request)) = 400 \<longleftrightarrow> \<not> truthy message"
  proof (cases "fst (chat_try self nw t now request)")
    case (Inl e)
    then have "truthy (case map_of request ''message'' of None \<Rightarrow> JStr [] | Some v \<Rightarrow> v)"
      using chat_try_falsy [of request self nw t now] by (cases "truthy (case map_of request ''message'' of None \<Rightarrow> JStr [] | Some v \<Rightarrow> v)") auto
    with Inl show ?thesis
      using assms(2) by (simp add: chat_endpoint_of_try)
  next
    case (Inr answer)
    obtain status_code content where "answer = (status_code, content)"
      by (cases answer)
    with Inr chat_try_status [of self nw t now request status_code content] show ?thesis
      using assms(2) by (auto simp: chat_endpoint_of_try)
  qed
qed


theorem missing_session_id_defaults_witness:
  "map_of [(''message'', JStr ''hello'')] ''session_id'' = None
   \<and> truthy (JStr ''hello'')
   \<and> snd (chat_endpoint str_none_sliced rasa_client net_third 0 ''2024-01-15T10:00:00'' [(''message'', JStr ''hello'')]) =
        [(''http://localhost:5005/webhooks/rest/webhook'', JObj [(''sender'', JStr ''default_session''), (''message'', JStr ''hello'')]),
         (''http://localhost:5005/webhooks/rest/webhook'', JObj [(''sender'', JStr ''default_session''), (''message'', JStr ''hello'')]),
         (''http://127.0.0.1:5005/webhooks/rest/webhook'', JObj [(''sender'', JStr ''default_session''), (''message'', JStr ''hello'')])]
   \<and> fst (chat_endpoint str_none_sliced rasa_client net_third 0 ''2024-01-15T10:00:00'' [(''message'', JStr ''hello'')])
        = (200, JObj [(''text'', JStr ''Hello''), (''buttons'', JArr []),
                      (''session_id'', JStr ''default_session''), (''timestamp'', JStr ''2024-01-15T10:00:00'')])
   \<and> py_get (JObj [(''text'', JStr ''Hello''), (''buttons'', JArr []),
                     (''session_id'', JStr ''default_session''), (''timestamp'', JStr ''2024-01-15T10:00:00'')])
          ''session_id'' JNull = Inr (JStr ''default_session'')
   \<and> fst (fst (chat_endpoint str_none_sliced rasa_client net_third 0 ''2024-01-15T10:00:00'' [(''message'', JStr ''hello'')])) \<noteq> 400"
proof -
  let ?now = "''2024-01-15T10:00:00''"
  let ?req = "[(''message'', JStr ''hello'')]"
  have answer: "fst (chat_endpoint str_none_sliced rasa_client net_third 0 ?now ?req)
        = (200, JObj [(''text'', JStr ''Hello''), (''buttons'', JArr []),
                      (''session_id'', JStr ''default_session''), (''timestamp'', JStr ?now)])"
    by (simp add: chat_endpoint_def chat_try_def Let_def send_message_def urls_rasa_client net_third_def try_body_def)
  have issued: "snd (send_message rasa_client net_third 0 (JStr ''hello'') (JStr ''default_session'')) =
        [(''http://localhost:5005/webhooks/rest/webhook'', JObj [(''sender'', JStr ''default_session''), (''message'', JStr ''hello'')]),
         (''http://localhost:5005/webhooks/rest/webhook'', JObj [(''sender'', JStr ''default_session''), (''message'', JStr ''hello'')]),
         (''http://127.0.0.1:5005/webhooks/rest/webhook'', JObj [(''sender'', JStr ''default_session''), (''message'', JStr ''hello'')])]"
    by (simp add: send_message_def urls_rasa_client net_third_def try_body_def webhook_def)
  from missing_session_id_defaults [where request = ?req and message = "JStr ''hello''" and self = rasa_client
              and nw = net_third and t = 0 and now = ?now and str_e = str_none_sliced]
  have "snd (chat_endpoint str_none_sliced rasa_client net_third 0 ?now ?req) =
          snd (send_message rasa_client net_third 0 (JStr ''hello'') (JStr ''default_session''))"
    and "fst (fst (chat_endpoint str_none_sliced rasa_client net_third 0 ?now ?req)) \<noteq> 400"
    by simp_all
  with answer issued show ?thesis
    by simp
qed

section \<open>The connection manager and the receive loop: facts and claims\<close>

lemma disconnect_removes:
  "distinct (active_connections w) \<Longrightarrow> ws \<notin> set (active_connections (disconnect ws w))"
  by (simp add: disconnect_def)

lemma send_personal_message_returns:
  "fst (send_personal_message e message ws w) = Inr ()"
  by (simp add: send_personal_message_def Let_def split: option.splits)

text \<open>
  Claim C2, as the code has it. When the write fails, \<open>send_personal_message\<close> removes
  the connection from the manager's list (it is absent afterwards when it was registered
  at most once, as \<open>connect\<close> is called once for a connection), writes no frame and
  returns normally. It returns \<open>None\<close> on success and on failure alike: the failure is
  not reported through the value returned.
\<close>

theorem write_failure_unregisters:
  assumes "send_text_raises e (writes w) ws = Some x"
    and "distinct (active_connections w)"
  shows "fst (send_personal_message e message ws w) = Inr ()
       \<and> ws \<notin> set (active_connections (snd (send_personal_message e message ws w)))
       \<and> sent (snd (send_personal_message e message ws w)) = sent w
       \<and> fst (send_personal_message e' message ws w) = fst (send_personal_message e message ws w)"
proof (intro conjI)
  show "fst (send_personal_message e message ws w) = Inr ()"
    by (rule send_personal_message_returns)
next
  have "snd (send_personal_message e message ws w) = disconnect ws (w\<lparr>writes := Suc (writes w)\<rparr>)"
    using assms(1) by (simp add: send_personal_message_def Let_def)
  moreover have "distinct (active_connections (w\<lparr>writes := Suc (writes w)\<rparr>))"
    using assms(2) by simp
  ultimately show "ws \<notin> set (active_connections (snd (send_personal_message e message ws w)))"
    by (simp add: disconnect_removes)
next
  show "sent (snd (send_personal_message e message ws w)) = sent w"
    using assms(1) by (simp add: send_personal_message_def Let_def disconnect_def)
next
  show "fst (send_personal_message e' message ws w) = fst (send_personal_message e message ws w)"
    by (simp add: send_personal_message_returns)
qed

theorem write_failure_unregisters_witness:
  "send_text_raises env_write_fails (writes world0) 7 = Some RuntimeError
   \<and> distinct (active_connections world0)
   \<and> 7 \<in> set (active_connections world0)
   \<and> fst (send_personal_message env_write_fails (JStr ''hi'') 7 world0) = Inr ()
   \<and> 7 \<notin> set (active_connections (snd (send_personal_message env_write_fails (JStr ''hi'') 7 world0)))
   \<and> sent (snd (send_personal_message env_write_fails (JStr ''hi'') 7 world0)) = []"
proof -
  have raises: "send_text_raises env_write_fails (writes world0) 7 = Some RuntimeError"
    by (simp add: env_write_fails_def)
  have once: "distinct (active_connections world0)"
    by (simp add: world0_def)
  from write_failure_unregisters [OF raises once, of "JStr ''hi''" env_ok] raises once
  show ?thesis
    by (simp add: world0_def)
qed

text \<open>
  The value returned to the caller by a failed write is the value returned by a
  successful one.
\<close>

theorem write_failure_not_reported:
  "send_text_raises env_write_fails (writes world0) 7 = Some RuntimeError
   \<and> send_text_raises env_ok (writes world0) 7 = None
   \<and> fst (send_personal_message env_write_fails (JStr ''hi'') 7 world0) = Inr ()
   \<and> fst (send_personal_message env_ok (JStr ''hi'') 7 world0) = Inr ()"
  by (simp add: send_personal_message_def Let_def env_write_fails_def env_ok_def)

text \<open>
  Claim C1, as the code has it. A frame that decodes to a JSON object whose type is
  neither \<open>message\<close> nor \<open>typing\<close> is ignored: the pass changes nothing and the loop
  goes on to the next frame. A frame that cannot be decoded, or that decodes to something
  other than an object, raises inside the loop: the handler unregisters the connection
  and the endpoint returns.
\<close>

theorem unknown_type_ignored_undecodable_closes:
  "(map_of kvs ''type'' \<noteq> Some (JStr ''message'') \<and> map_of kvs ''type'' \<noteq> Some (JStr ''typing'') \<longrightarrow>
      loop_body self e session_id ws (Text_frame (Some (JObj kvs))) w = (Inr (), w)
      \<and> receive_loop self e session_id ws (Text_frame (Some (JObj kvs)) # frames) w =
          receive_loop self e session_id ws frames w)
   \<and> receive_loop self e session_id ws (Text_frame None # frames) w = (Closed, disconnect ws w)
   \<and> ((\<forall>obj. v \<noteq> JObj obj) \<longrightarrow>
        receive_loop self e session_id ws (Text_frame (Some v) # frames) w = (Closed, disconnect ws w))
   \<and> (distinct (active_connections w) \<longrightarrow> ws \<notin> set (active_connections (disconnect ws w)))"
proof (intro conjI impI)
  assume other: "map_of kvs ''type'' \<noteq> Some (JStr ''message'') \<and> map_of kvs ''type'' \<noteq> Some (JStr ''typing'')"
  then show ignored: "loop_body self e session_id ws (Text_frame (Some (JObj kvs))) w = (Inr (), w)"
    by (auto simp: loop_body_def split: option.splits)
  then show "receive_loop self e session_id ws (Text_frame (Some (JObj kvs)) # frames) w =
          receive_loop self e session_id ws frames w"
    by simp
next
  have "loop_body self e session_id ws (Text_frame None) w = (Inl JSONDecodeError, w)"
    by (simp add: loop_body_def)
  then show "receive_loop self e session_id ws (Text_frame None # frames) w = (Closed, disconnect ws w)"
    by simp
next
  assume "\<forall>obj. v \<noteq> JObj obj"
  then have "loop_body self e session_id ws (Text_frame (Some v)) w = (Inl AttributeError, w)"
    by (cases v) (simp_all add: loop_body_def)
  then show "receive_loop self e session_id ws (Text_frame (Some v) # frames) w = (Closed, disconnect ws w)"
    by simp
next
  assume "distinct (active_connections w)"
  then show "ws \<notin> set (active_connections (disconnect ws w))"
    by (rule disconnect_removes)
qed

theorem unknown_type_ignored_undecodable_closes_witness:
  "map_of [(''type'', JStr ''ping'')] ''type'' \<noteq> Some (JStr ''message'')
   \<and> map_of [(''type'', JStr ''ping'')] ''type'' \<noteq> Some (JStr ''typing'')
   \<and> receive_loop rasa_client env_ok ''s1'' 7 [Text_frame (Some (JObj [(''type'', JStr ''ping'')]))] world0
        = (Active, world0)
   \<and> receive_loop rasa_client env_ok ''s1'' 7 [Text_frame (Some (JArr []))] world0
        = (Closed, world0\<lparr>active_connections := []\<rparr>)
   \<and> distinct (active_connections world0)
   \<and> 7 \<notin> set (active_connections (disconnect 7 world0))"
proof -
  have once: "distinct (active_connections world0)"
    by (simp add: world0_def)
  have gone: "disconnect 7 world0 = world0\<lparr>active_connections := []\<rparr>"
    by (simp add: disconnect_def world0_def)
  from unknown_type_ignored_undecodable_closes
         [where kvs = "[(''type'', JStr ''ping'')]" and v = "JArr []" and self = rasa_client
            and e = env_ok and session_id = "''s1''" and ws = 7 and w = world0 and frames = "[]"]
  have "receive_loop rasa_client env_ok ''s1'' 7 [Text_frame (Some (JObj [(''type'', JStr ''ping'')]))] world0
          = (Active, world0)"
    and "receive_loop rasa_client env_ok ''s1'' 7 [Text_frame (Some (JArr []))] world0
          = (Closed, disconnect 7 world0)"
    and "7 \<notin> set (active_connections (disconnect 7 world0))"
    using once by simp_all
  with once gone show ?thesis
    by simp
qed

text \<open>
  On an active connection, one frame that cannot be decoded ends the loop and
  unregisters the connection.
\<close>

theorem undecodable_frame_is_fatal:
  "receive_loop rasa_client env_ok ''s1'' 7 [Text_frame None] world0
     = (Closed, world0\<lparr>active_connections := []\<rparr>)"
  by (simp add: loop_body_def disconnect_def world0_def)

section \<open>The symptom assessment: facts and claims\<close>

lemma any_in_iff: "any_in keywords combined \<longleftrightarrow> (\<exists>k \<in> set keywords. sublist k combined)"
  by (simp add: any_in_def list_ex_iff)

lemma combined_text_defined:
  "latest_message_text tracker \<noteq> TextNone \<Longrightarrow> \<exists>combined. combined_text lower tracker = Inr combined"
  by (cases "latest_message_text tracker") (simp_all add: combined_text_def Let_def)

text \<open>
  Claim C6. When the lowered search text (the symptoms joined by spaces, a space, the
  latest message) contains one of the emergency keywords chest pain, difficulty
  breathing, severe bleeding, heart attack, the action sets the urgency level to
  emergency, whatever else the text contains and however many symptoms there are.
\<close>

theorem emergency_keyword_dominates:
  assumes "combined_text lower tracker = Inr combined"
    and "k \<in> {''chest pain'', ''difficulty breathing'', ''severe bleeding'', ''heart attack''}"
    and "sublist k combined"
  shows "\<exists>uttered. ActionAssessSymptoms_run lower tracker =
           Inr (uttered, [SlotSet ''urgency_level'' ''emergency''])"
proof -
  from assms(2) have "k \<in> set emergency_symptoms"
    by (simp add: emergency_symptoms_def)
  with assms(3) have "any_in emergency_symptoms combined"
    unfolding any_in_iff by blast
  with assms(1) show ?thesis
    by (simp add: ActionAssessSymptoms_run_def Let_def)
qed

text \<open>
  The tiers without a keyword, on the inputs where the text of the latest message is a
  string or is absent: the urgency level is medium when there is more than one symptom,
  and low when there is one symptom or none.
\<close>

lemma tiers_without_keyword:
  assumes "latest_message_text tracker \<noteq> TextNone"
    and "\<forall>combined. combined_text lower tracker = Inr combined \<longrightarrow>
           (\<forall>k \<in> set emergency_symptoms \<union> set high_priority. \<not> sublist k combined)"
  shows "\<exists>uttered. ActionAssessSymptoms_run lower tracker =
           Inr (uttered, [SlotSet ''urgency_level''
                            (if length (symptoms_of (symptoms_slot tracker)) > 1 then ''medium'' else ''low'')])"
proof -
  from assms(1) obtain combined where defined: "combined_text lower tracker = Inr combined"
    using combined_text_defined by blast
  with assms(2) have "\<not> any_in emergency_symptoms combined" and "\<not> any_in high_priority combined"
    unfolding any_in_iff by blast+
  with defined show ?thesis
    by (auto simp: ActionAssessSymptoms_run_def Let_def)
qed


lemma combined_chest:
  "combined_text ascii_lower tracker_chest = Inr ''headache severe pain i have chest pain and a high fever''"
  by code_simp

lemma combined_two:
  "combined_text ascii_lower tracker_two = Inr ''cough runny nose i feel unwell''"
  by code_simp

lemma combined_empty:
  "combined_text ascii_lower tracker_empty = Inr '' ''"
  by code_simp

lemma no_keyword_two:
  "\<not> any_in emergency_symptoms ''cough runny nose i feel unwell''"
  "\<not> any_in high_priority ''cough runny nose i feel unwell''"
  by (simp_all add: any_in_def emergency_symptoms_def high_priority_def sublist_code(3))

lemma no_keyword_empty:
  "\<not> any_in emergency_symptoms '' ''"
  "\<not> any_in high_priority '' ''"
  by (simp_all add: any_in_def emergency_symptoms_def high_priority_def sublist_code(3))

theorem emergency_keyword_dominates_witness:
  "combined_text ascii_lower tracker_chest = Inr ''headache severe pain i have chest pain and a high fever''
   \<and> sublist ''chest pain'' ''headache severe pain i have chest pain and a high fever''
   \<and> sublist ''severe pain'' ''headache severe pain i have chest pain and a high fever''
   \<and> length (symptoms_of (symptoms_slot tracker_chest)) = 2
   \<and> (\<exists>uttered. ActionAssessSymptoms_run ascii_lower tracker_chest =
          Inr (uttered, [SlotSet ''urgency_level'' ''emergency'']))"
proof -
  have found: "sublist ''chest pain'' ''headache severe pain i have chest pain and a high fever''"
    by (simp add: sublist_code(3))
  have also_high: "sublist ''severe pain'' ''headache severe pain i have chest pain and a high fever''"
    by (simp add: sublist_code(3))
  have two: "length (symptoms_of (symptoms_slot tracker_chest)) = 2"
    by (simp add: tracker_chest_def)
  have "\<exists>uttered. ActionAssessSymptoms_run ascii_lower tracker_chest =
          Inr (uttered, [SlotSet ''urgency_level'' ''emergency''])"
    using combined_chest _ found by (rule emergency_keyword_dominates) simp
  with combined_chest found also_high two show ?thesis
    by blast
qed

lemma tiers_without_keyword_examples:
  "latest_message_text tracker_two \<noteq> TextNone
   \<and> combined_text ascii_lower tracker_two = Inr ''cough runny nose i feel unwell''
   \<and> \<not> any_in emergency_symptoms ''cough runny nose i feel unwell''
   \<and> \<not> any_in high_priority ''cough runny nose i feel unwell''
   \<and> (\<exists>uttered. ActionAssessSymptoms_run ascii_lower tracker_two =
          Inr (uttered, [SlotSet ''urgency_level'' ''medium'']))
   \<and> latest_message_text tracker_empty \<noteq> TextNone
   \<and> combined_text ascii_lower tracker_empty = Inr '' ''
   \<and> \<not> any_in emergency_symptoms '' ''
   \<and> \<not> any_in high_priority '' ''
   \<and> (\<exists>uttered. ActionAssessSymptoms_run ascii_lower tracker_empty =
          Inr (uttered, [SlotSet ''urgency_level'' ''low'']))"
proof -
  have text_two: "latest_message_text tracker_two \<noteq> TextNone"
    by (simp add: tracker_two_def)
  have text_empty: "latest_message_text tracker_empty \<noteq> TextNone"
    by (simp add: tracker_empty_def)
  have none_two: "\<forall>combined. combined_text ascii_lower tracker_two = Inr combined \<longrightarrow>
           (\<forall>k \<in> set emergency_symptoms \<union> set high_priority. \<not> sublist k combined)"
    using no_keyword_two by (auto simp: combined_two any_in_iff)
  have none_empty: "\<forall>combined. combined_text ascii_lower tracker_empty = Inr combined \<longrightarrow>
           (\<forall>k \<in> set emergency_symptoms \<union> set high_priority. \<not> sublist k combined)"
    using no_keyword_empty by (auto simp: combined_empty any_in_iff)
  have medium: "\<exists>uttered. ActionAssessSymptoms_run ascii_lower tracker_two =
          Inr (uttered, [SlotSet ''urgency_level'' ''medium''])"
    using tiers_without_keyword [OF text_two none_two] by (simp add: tracker_two_def)
  have low: "\<exists>uttered. ActionAssessSymptoms_run ascii_lower tracker_empty =
          Inr (uttered, [SlotSet ''urgency_level'' ''low''])"
    using tiers_without_keyword [OF text_empty none_empty] by (simp add: tracker_empty_def)
  from text_two text_empty combined_two combined_empty no_keyword_two no_keyword_empty medium low
  show ?thesis
    by blast
qed

text \<open>
  Claim C7. The claim has the classification never fail on unmatched or empty input,
  and yield low there. The symptoms slot is guarded against \<open>None\<close> (lines 33 and 38)
  and a missing text entry is replaced by the empty string (line 45), but a text entry
  that is present with the value \<open>None\<close> is not: on the empty input of a conversation
  without a user message, line 45 calls \<open>.lower()\<close> on \<open>None\<close> and the action raises
  \<open>AttributeError\<close> instead of returning the tier low.
\<close>

theorem assessment_raises_without_message_text:
  "symptoms_of (symptoms_slot tracker_no_message) = []
   \<and> latest_message_text tracker_no_message = TextNone
   \<and> ActionAssessSymptoms_run lower tracker_no_message = Inl AttributeError"
  by (simp add: tracker_no_message_def ActionAssessSymptoms_run_def combined_text_def)

end
